theory Spec2Isabelle
  imports Main
begin

section \<open>The box walker of the JPEG 2000 codestream parser (jp2box.py, jp2utils.py)\<close>

text \<open>
  The walker is Python 2 code (it calls \<open>string.index\<close> and \<open>string.letters\<close>): a byte
  string is a \<open>str\<close>, modelled as a \<open>string\<close> (a list of 8-bit characters), and every
  integer is unbounded, modelled as \<open>int\<close>. An exception that leaves a function is a value
  \<open>Inl e\<close> of the result.
\<close>

subsection \<open>Exceptions\<close>

datatype error =
    UnexpectedEOF
  | InvalidBoxLength string
  | UnicodeDecodeError
  | StructError
  | IndexError
  | ValueError

subsection \<open>Python sequences\<close>

text \<open>A slice bound of \<open>s[i:j]\<close>: a negative bound counts from the end, and every bound is
  clipped to the sequence.\<close>

definition slice_bound :: "int \<Rightarrow> nat \<Rightarrow> nat" where
  "slice_bound i n = (if i < 0 then nat (i + int n) else min (nat i) n)"

definition py_slice :: "'a list \<Rightarrow> int \<Rightarrow> int \<Rightarrow> 'a list" where
  "py_slice s i j =
     (let lo = slice_bound i (length s); hi = slice_bound j (length s)
      in take (hi - lo) (drop lo s))"

text \<open>\<open>s[i]\<close> for a non-negative index: IndexError out of range.\<close>

definition getitem :: "string \<Rightarrow> nat \<Rightarrow> error + char" where
  "getitem s i = (if i < length s then Inr (s ! i) else Inl IndexError)"

text \<open>\<open>string.index(s, c)\<close> for a one-character \<open>c\<close>: the first position of \<open>c\<close>, ValueError
  when \<open>c\<close> does not occur.\<close>

definition string_index :: "string \<Rightarrow> char \<Rightarrow> error + nat" where
  "string_index s c =
     (if c \<in> set s then Inr (length (takeWhile (\<lambda>x. x \<noteq> c) s)) else Inl ValueError)"

text \<open>\<open>string.letters\<close> (in the C locale) and \<open>string.digits\<close>.\<close>

definition letters :: string where
  "letters = ''abcdefghijklmnopqrstuvwxyzABCDEFGHIJKLMNOPQRSTUVWXYZ''"

definition digits :: string where
  "digits = ''0123456789''"

text \<open>\<open>s.decode('ascii')\<close>: every byte must be below 128.\<close>

definition decode_ascii :: "string \<Rightarrow> error + string" where
  "decode_ascii s =
     (if list_all (\<lambda>c. (of_char c :: nat) < 128) s then Inr s else Inl UnicodeDecodeError)"

subsection \<open>jp2utils: byte order helpers\<close>

text \<open>\<open>struct.unpack\<close> wants a string of exactly the size of its format.\<close>

definition ordb :: "char \<Rightarrow> int" where
  "ordb c = of_char c"

fun be_value :: "string \<Rightarrow> int" where
  "be_value [] = 0"
| "be_value (c # cs) = ordb c * 256 ^ length cs + be_value cs"

definition ordl :: "string \<Rightarrow> error + int" where
  "ordl buf = (if length buf = 4 then Inr (be_value buf) else Inl StructError)"

definition ordq :: "string \<Rightarrow> error + int" where
  "ordq buf = (if length buf = 8 then Inr (be_value buf) else Inl StructError)"

subsection \<open>jp2utils: the class Buffer, the byte source\<close>

text \<open>
  The walker reads its input through \<open>read\<close>, \<open>tell\<close> and \<open>seek\<close> of \<open>self.infile\<close>. The
  repository's own byte source is the class Buffer; \<open>read f (- 1)\<close> is the call \<open>read()\<close>
  without an argument.
\<close>

record Buffer =
  offset :: int
  buffer :: string

definition eof_reached :: "Buffer \<Rightarrow> bool" where
  "eof_reached f = (offset f \<ge> int (length (buffer f)))"

definition rest_len :: "Buffer \<Rightarrow> int" where
  "rest_len f = int (length (buffer f)) - offset f"

definition read :: "Buffer \<Rightarrow> int \<Rightarrow> string \<times> Buffer" where
  "read f n =
     (if eof_reached f then ([], f)
      else
        let n' = (if n = - 1 \<or> n > rest_len f then rest_len f else n)
        in (py_slice (buffer f) (offset f) (offset f + n'), f\<lparr>offset := offset f + n'\<rparr>))"

text \<open>\<open>Buffer(buf)\<close>.\<close>

definition Buffer_init :: "string \<Rightarrow> Buffer" where
  "Buffer_init buf = \<lparr>offset = 0, buffer = buf\<rparr>"

definition tell :: "Buffer \<Rightarrow> int" where
  "tell f = offset f"

definition seek :: "Buffer \<Rightarrow> int \<Rightarrow> Buffer" where
  "seek f pos = f\<lparr>offset := pos\<rparr>"

subsection \<open>jp2box: the class JP2Box\<close>

record JP2Box =
  infile :: Buffer
  indent :: int
  box_offset :: int
  box_end :: int
  hdrsize :: int
  boxsize :: int
  target :: int
  bodysize :: int

text \<open>\<open>JP2Box(box, infile, offs)\<close>; \<open>None\<close> for \<open>box\<close> makes the root walker.\<close>

definition JP2Box_init :: "JP2Box option \<Rightarrow> Buffer \<Rightarrow> int \<Rightarrow> JP2Box" where
  "JP2Box_init box f offs =
     (case box of
        None \<Rightarrow>
          \<lparr>infile = f, indent = 0, box_offset = 0, box_end = 0,
           hdrsize = 0, boxsize = 0, target = 0, bodysize = 0\<rparr>
      | Some b \<Rightarrow>
          \<lparr>infile = f, indent = indent b, box_offset = box_offset b + offs, box_end = target b,
           hdrsize = 0, boxsize = 0, target = 0, bodysize = 0\<rparr>)"

text \<open>\<open>new_box\<close> and \<open>end_box\<close> print a line of the trace and move the indent; the printed
  text goes to standard output and is not part of the state.\<close>

definition new_box :: "JP2Box \<Rightarrow> string \<Rightarrow> JP2Box" where
  "new_box self description = self\<lparr>indent := indent self + 1\<rparr>"

definition end_box :: "JP2Box \<Rightarrow> JP2Box" where
  "end_box self = self\<lparr>indent := indent self - 1\<rparr>"

subsubsection \<open>boxname\<close>

definition hexdigit :: "int \<Rightarrow> char" where
  "hexdigit d = ''0123456789abcdef'' ! nat d"

text \<open>\<open>"%02x" % n\<close> for a byte value \<open>n\<close> (0 to 255).\<close>

definition hex02 :: "int \<Rightarrow> string" where
  "hex02 n = [hexdigit (n div 16), hexdigit (n mod 16)]"

text \<open>The loop \<open>for i in range(4)\<close> of the \<open>try\<close> block.\<close>

fun boxname_try :: "string \<Rightarrow> nat list \<Rightarrow> error + string" where
  "boxname_try ident [] = Inr ident"
| "boxname_try ident (i # rest) =
     (case getitem ident i of
        Inl e \<Rightarrow> Inl e
      | Inr c \<Rightarrow>
          (case string_index (letters @ digits) c of
             Inl e \<Rightarrow> Inl e
           | Inr _ \<Rightarrow> boxname_try ident rest))"

text \<open>The \<open>except ValueError\<close> branch.\<close>

definition boxname_hex :: "string \<Rightarrow> error + string" where
  "boxname_hex ident =
     (case getitem ident 0 of Inl e \<Rightarrow> Inl e | Inr c0 \<Rightarrow>
     (case getitem ident 1 of Inl e \<Rightarrow> Inl e | Inr c1 \<Rightarrow>
     (case getitem ident 2 of Inl e \<Rightarrow> Inl e | Inr c2 \<Rightarrow>
     (case getitem ident 3 of Inl e \<Rightarrow> Inl e | Inr c3 \<Rightarrow>
        Inr (''0x'' @ hex02 (ordb c0) @ hex02 (ordb c1) @ hex02 (ordb c2) @ hex02 (ordb c3))))))"

definition boxname :: "string \<Rightarrow> error + string" where
  "boxname ident =
     (case boxname_try ident [0, 1, 2, 3] of
        Inl ValueError \<Rightarrow> boxname_hex ident
      | Inl e \<Rightarrow> Inl e
      | Inr r \<Rightarrow> Inr r)"

subsubsection \<open>parse_header\<close>

text \<open>What \<open>parse_header\<close> returns: the empty list, the 1-tuple \<open>(id,)\<close> or the pair
  \<open>(length, id)\<close>.\<close>

datatype header = NoBox | UpToEOF string | Sized int string

text \<open>\<open>raise InvalidBoxLength(self.boxname(id))\<close>.\<close>

definition raise_invalid :: "string \<Rightarrow> error + 'a" where
  "raise_invalid ident =
     (case boxname ident of Inl e \<Rightarrow> Inl e | Inr name \<Rightarrow> Inl (InvalidBoxLength name))"

text \<open>Lines 88 to 120 of \<open>parse_header\<close>: the header is read from the source.\<close>

definition read_header :: "JP2Box \<Rightarrow> error + JP2Box \<times> header" where
  "read_header self =
     (let (lbox, f1) = read (infile self) 4 in
      if length lbox = 0 then Inr (self\<lparr>infile := f1\<rparr>, NoBox)
      else if length lbox < 4 then Inl UnexpectedEOF
      else
        (case ordl lbox of
           Inl e \<Rightarrow> Inl e
         | Inr len \<Rightarrow>
            (let (tbox, f2) = read f1 4 in
              (case decode_ascii tbox of
                 Inl e \<Rightarrow> Inl e
               | Inr ident \<Rightarrow>
                  (if length ident < 4 then Inl UnexpectedEOF
                   else
                     (let self1 = self\<lparr>infile := f2, box_offset := box_offset self + 8,
                                          hdrsize := 8\<rparr>
                      in
                        if len = 1 then
                          (let (xlength, f3) = read f2 8;
                               self2 = self1\<lparr>infile := f3, box_offset := box_offset self1 + 8,
                                              hdrsize := 16\<rparr>
                           in
                             if length xlength < 8 then Inl UnexpectedEOF
                             else
                               (case ordq xlength of
                                  Inl e \<Rightarrow> Inl e
                                | Inr xl \<Rightarrow>
                                   (if xl < 16 then raise_invalid ident
                                    else Inr (self2\<lparr>boxsize := xl - 16\<rparr>,
                                              Sized (xl - 16) ident))))
                        else if 0 < len \<and> len < 8 then raise_invalid ident
                        else if len > 0
                          then Inr (self1\<lparr>boxsize := len - 8\<rparr>, Sized (len - 8) ident)
                        else if len = 0 then Inr (self1, UpToEOF ident)
                        else Inr (self1\<lparr>boxsize := len\<rparr>, Sized len ident)))))))"

text \<open>Lines 83 to 87: the check against the end of the scope comes first.\<close>

definition parse_header :: "JP2Box \<Rightarrow> error + JP2Box \<times> header" where
  "parse_header self =
     (if box_end self > 0 \<and> tell (infile self) = box_end self then Inr (self, NoBox)
      else if box_end self > 0 \<and> tell (infile self) > box_end self
        then Inl (InvalidBoxLength ''unknown box'')
      else read_header self)"

subsubsection \<open>parse_string_header\<close>

definition parse_string_header :: "string \<Rightarrow> error + string \<times> int \<times> string" where
  "parse_string_header buf =
     (case ordl buf of
        Inl e \<Rightarrow> Inl e
      | Inr len \<Rightarrow>
         (let ident = py_slice buf 4 8;
              buf1 = py_slice buf 8 (int (length buf))
          in
            if len = 1 then
              (let xlength = py_slice buf1 0 8;
                   buf2 = py_slice buf1 8 (int (length buf1))
               in
                 if length xlength < 8 then Inl UnexpectedEOF
                 else
                   (case ordq xlength of
                      Inl e \<Rightarrow> Inl e
                    | Inr xl \<Rightarrow>
                       (if xl < 16 then raise_invalid ident
                        else Inr (buf2, xl - 16, ident))))
            else if 0 < len \<and> len < 8 then raise_invalid ident
            else if len > 0 then Inr (buf1, len - 8, ident)
            else Inr (buf1, len, ident)))"

subsubsection \<open>readbody\<close>

definition readbody :: "JP2Box \<Rightarrow> string \<times> JP2Box" where
  "readbody self =
     (if bodysize self > 0
      then (let (buf, f) = read (infile self) (bodysize self) in (buf, self\<lparr>infile := f\<rparr>))
      else (let (buf, f) = read (infile self) (- 1) in (buf, self\<lparr>infile := f\<rparr>)))"

subsubsection \<open>parse\<close>

text \<open>\<open>"%d" % n\<close>.\<close>

fun str_nat :: "nat \<Rightarrow> string" where
  "str_nat n =
     (if n < 10 then [digits ! n] else str_nat (n div 10) @ [digits ! (n mod 10)])"

definition str_int :: "int \<Rightarrow> string" where
  "str_int i = (if i < 0 then ''-'' @ str_nat (nat (- i)) else str_nat (nat i))"

text \<open>\<open>'"%s"' % id\<close>.\<close>

definition quoted :: "string \<Rightarrow> string" where
  "quoted ident = [CHR 0x22] @ ident @ [CHR 0x22]"

text \<open>
  The hook is any callable: it gets the walker, the type tag and the description of the
  size. It may read from \<open>self.infile\<close>, move its cursor, assign fields of the walker, walk
  a child scope, or raise; what it leaves behind is the walker it returns.
\<close>

type_synonym hook = "JP2Box \<Rightarrow> string \<Rightarrow> string \<Rightarrow> error + JP2Box"

text \<open>One pass through the body of \<open>while True\<close>: the loop is left by \<open>return\<close>, or goes on
  to its next pass.\<close>

datatype step = Return JP2Box | Continue JP2Box

definition parse_pass :: "hook \<Rightarrow> JP2Box \<Rightarrow> error + step" where
  "parse_pass hook self =
     (case parse_header self of
        Inl e \<Rightarrow> Inl e
      | Inr (self1, NoBox) \<Rightarrow> Inr (Return self1)
      | Inr (self1, UpToEOF ident) \<Rightarrow>
          (case hook (new_box self1 (quoted ident)) ident ''all up to EOF'' of
             Inl e \<Rightarrow> Inl e
           | Inr self2 \<Rightarrow> Inr (Continue (end_box self2)))
      | Inr (self1, Sized len ident) \<Rightarrow>
          (let self2 = self1\<lparr>bodysize := len, target := tell (infile self1) + len\<rparr> in
           case hook (new_box self2 (quoted ident)) ident (str_int len) of
             Inl e \<Rightarrow> Inl e
           | Inr self3 \<Rightarrow>
               (let self4 = self3\<lparr>infile := seek (infile self3) (target self3)\<rparr>;
                    self5 = self4\<lparr>box_offset := box_offset self4 + len\<rparr>
                in Inr (Continue (end_box self5)))))"

text \<open>The loop may run forever (a hook can move the cursor back): \<open>None\<close> is the walk that
  does not return.\<close>

partial_function (option) parse :: "hook \<Rightarrow> JP2Box \<Rightarrow> (error + JP2Box) option" where
  "parse hook self =
     (case parse_pass hook self of
        Inl e \<Rightarrow> Some (Inl e)
      | Inr (Return self1) \<Rightarrow> Some (Inr self1)
      | Inr (Continue self1) \<Rightarrow> parse hook self1)"

declare parse.simps [code]

subsection \<open>Notions used to state the properties\<close>


subsection \<open>Inputs for the examples\<close>

text \<open>A walker on the source \<open>s\<close> with the cursor at \<open>pos\<close>, in a scope that ends at \<open>e\<close>
  (0 for the unbounded scope of the root).\<close>

definition walker_at :: "string \<Rightarrow> int \<Rightarrow> int \<Rightarrow> JP2Box" where
  "walker_at s pos e = (JP2Box_init None (seek (Buffer_init s) pos) 0)\<lparr>box_end := e\<rparr>"

text \<open>Two boxes of 8 bytes each, without a body.\<close>

definition two_boxes :: string where
  "two_boxes =
     [CHR 0x00, CHR 0x00, CHR 0x00, CHR 0x08] @ ''jp2h'' @
     [CHR 0x00, CHR 0x00, CHR 0x00, CHR 0x08] @ ''colr''"


text \<open>Three hooks: one that reads nothing, one that reads the body with \<open>readbody\<close>, and
  one that reads on to the end of the source.\<close>

definition hook_skip :: hook where
  "hook_skip self ident description = Inr self"

definition hook_readbody :: hook where
  "hook_readbody self ident description = Inr (snd (readbody self))"

definition hook_read_to_end :: hook where
  "hook_read_to_end self ident description =
     Inr (self\<lparr>infile := snd (read (infile self) (- 1))\<rparr>)"

text \<open>A box with a body of 4 bytes, followed by a box without a body.\<close>

definition box_then_box :: string where
  "box_then_box =
     [CHR 0x00, CHR 0x00, CHR 0x00, CHR 0x0C] @ ''abcd'' @ ''WXYZ'' @
     [CHR 0x00, CHR 0x00, CHR 0x00, CHR 0x08] @ ''next''"

text \<open>A box with \<open>L = 0\<close>, followed by the 8 bytes of another box header.\<close>

definition sentinel_then_box :: string where
  "sentinel_then_box =
     [CHR 0x00, CHR 0x00, CHR 0x00, CHR 0x00] @ ''abcd'' @
     [CHR 0x00, CHR 0x00, CHR 0x00, CHR 0x08] @ ''efgh''"

text \<open>A box with \<open>L = 0\<close> and 4 bytes after its header.\<close>

definition sentinel_only :: string where
  "sentinel_only = [CHR 0x00, CHR 0x00, CHR 0x00, CHR 0x00] @ ''abcd'' @ ''body''"

text \<open>A container of 20 bytes (its body is the scope from 8 to 20) that holds a box with
  \<open>L = 0\<close> and the 4 bytes \<open>wxyz\<close>; after the container comes another box.\<close>

definition nested_source :: string where
  "nested_source =
     [CHR 0x00, CHR 0x00, CHR 0x00, CHR 0x14] @ ''cont'' @
     [CHR 0x00, CHR 0x00, CHR 0x00, CHR 0x00] @ ''chld'' @ ''wxyz'' @
     [CHR 0x00, CHR 0x00, CHR 0x00, CHR 0x08] @ ''next''"

text \<open>A box with a body of 2 bytes, followed by a box with \<open>L = 0\<close> and 6 bytes after its
  header.\<close>

definition box_then_sentinel :: string where
  "box_then_sentinel =
     [CHR 0x00, CHR 0x00, CHR 0x00, CHR 0x0A] @ ''abcd'' @ ''XY'' @
     [CHR 0x00, CHR 0x00, CHR 0x00, CHR 0x00] @ ''rest'' @ ''pqrstu''"

section \<open>Properties\<close>

subsection \<open>Rendering of a type tag\<close>












subsection \<open>Reading from the byte source\<close>

lemmas read_defs = read_def eof_reached_def rest_len_def py_slice_def slice_bound_def

lemmas eval_defs = walker_at_def JP2Box_init_def Buffer_init_def seek_def tell_def read_defs
  ordl_def ordq_def ordb_def decode_ascii_def

lemma read_fixed:
  "0 \<le> offset f \<Longrightarrow> 0 < n \<Longrightarrow>
     fst (read f n) = take (nat n) (drop (nat (offset f)) (buffer f))"
  by (auto simp: read_defs Let_def min_def nat_add_distrib nat_diff_distrib)

lemma read_rest:
  "0 \<le> offset f \<Longrightarrow> fst (read f (- 1)) = drop (nat (offset f)) (buffer f)"
  by (auto simp: read_defs Let_def min_def nat_add_distrib nat_diff_distrib)

lemma read_buffer: "buffer (snd (read f n)) = buffer f"
  by (simp add: read_def Let_def)

lemma read_offset:
  "0 \<le> offset f \<Longrightarrow> 0 < n \<Longrightarrow>
     offset (snd (read f n)) = offset f + int (length (fst (read f n)))"
  by (auto simp: read_defs Let_def min_def nat_add_distrib nat_diff_distrib)


lemma read_result:
  assumes "0 \<le> offset f" and "0 < n" and "read f n = (bs, f')"
  shows "offset f' = offset f + int (length bs) \<and> buffer f' = buffer f \<and> length bs \<le> nat n"
proof -
  have "bs = fst (read f n)" and "f' = snd (read f n)"
    using assms(3) by simp_all
  then show ?thesis
    using read_offset [OF assms(1,2)] read_buffer [of f n] read_fixed [OF assms(1,2)]
    by simp
qed



lemma raise_invalid_Inl: "raise_invalid ident \<noteq> Inr y"
  by (simp add: raise_invalid_def split: sum.splits)


subsection \<open>The end of the scope\<close>

text \<open>
  C5. In a bounded scope (\<open>self.end > 0\<close>) \<open>parse_header\<close> compares the position of the
  source with the end of the scope before it reads: at the end it returns the empty result
  and leaves the walker and the source as they are; past the end it raises
  InvalidBoxLength for "unknown box"; only below the end does it go on to read a header.
\<close>

theorem parse_header_scope_boundary:
  assumes "box_end self > 0"
  shows "(tell (infile self) = box_end self \<longrightarrow> parse_header self = Inr (self, NoBox))
       \<and> (tell (infile self) > box_end self \<longrightarrow>
            parse_header self = Inl (InvalidBoxLength ''unknown box''))
       \<and> (tell (infile self) < box_end self \<longrightarrow> parse_header self = read_header self)"
  using assms by (simp add: parse_header_def)

lemma two_boxes_header:
  "read_header (walker_at two_boxes 0 8) =
     Inr ((walker_at two_boxes 8 8)\<lparr>box_offset := 8, hdrsize := 8, boxsize := 0\<rparr>,
          Sized 0 ''jp2h'')"
  by (simp add: read_header_def eval_defs two_boxes_def)

theorem parse_header_scope_boundary_witness:
  "box_end (walker_at two_boxes 8 8) > 0
   \<and> tell (infile (walker_at two_boxes 8 8)) = box_end (walker_at two_boxes 8 8)
   \<and> parse_header (walker_at two_boxes 8 8) = Inr (walker_at two_boxes 8 8, NoBox)
   \<and> tell (infile (walker_at two_boxes 12 8)) > box_end (walker_at two_boxes 12 8)
   \<and> parse_header (walker_at two_boxes 12 8) = Inl (InvalidBoxLength ''unknown box'')
   \<and> tell (infile (walker_at two_boxes 0 8)) < box_end (walker_at two_boxes 0 8)
   \<and> parse_header (walker_at two_boxes 0 8) =
         Inr ((walker_at two_boxes 8 8)\<lparr>box_offset := 8, hdrsize := 8, boxsize := 0\<rparr>,
              Sized 0 ''jp2h'')"
  using parse_header_scope_boundary [of "walker_at two_boxes 8 8"]
    parse_header_scope_boundary [of "walker_at two_boxes 12 8"]
    parse_header_scope_boundary [of "walker_at two_boxes 0 8"]
    two_boxes_header
  by (simp add: walker_at_def JP2Box_init_def Buffer_init_def seek_def tell_def)

subsection \<open>Reading a body\<close>

text \<open>
  C7 as stated fails: \<open>readbody\<close> with a declared body size of 10 on a source with 3 bytes
  left returns the 3 bytes; nothing is raised.
\<close>

theorem readbody_short_counterexample:
  "bodysize ((walker_at ''abc'' 0 0)\<lparr>bodysize := 10\<rparr>) = 10
   \<and> rest_len (infile ((walker_at ''abc'' 0 0)\<lparr>bodysize := 10\<rparr>)) = 3
   \<and> readbody ((walker_at ''abc'' 0 0)\<lparr>bodysize := 10\<rparr>) =
        (''abc'', (walker_at ''abc'' 3 0)\<lparr>bodysize := 10\<rparr>)"
  by (simp add: readbody_def walker_at_def JP2Box_init_def Buffer_init_def seek_def
        read_def eof_reached_def rest_len_def py_slice_def slice_bound_def)

text \<open>
  C7, amended. With the source at a position \<open>p \<ge> 0\<close>, \<open>readbody\<close> with a positive body
  size \<open>n\<close> returns the first \<open>n\<close> of the bytes that remain, all of them when fewer than
  \<open>n\<close> remain (a short or empty result, no exception); with a body size that is not
  positive it returns all the bytes that remain, none at the end of the source.
\<close>

theorem readbody_returns_available:
  assumes "0 \<le> tell (infile self)"
  shows "fst (readbody self) =
     (let rest = drop (nat (tell (infile self))) (buffer (infile self))
      in if bodysize self > 0 then take (nat (bodysize self)) rest else rest)"
  using assms read_fixed [of "infile self" "bodysize self"] read_rest [of "infile self"]
  by (simp add: readbody_def tell_def split_beta)

theorem readbody_returns_available_witness:
  "0 \<le> tell (infile ((walker_at ''abcdef'' 2 0)\<lparr>bodysize := 10\<rparr>))
   \<and> fst (readbody ((walker_at ''abcdef'' 2 0)\<lparr>bodysize := 10\<rparr>)) = ''cdef''
   \<and> fst (readbody ((walker_at ''abcdef'' 2 0)\<lparr>bodysize := 3\<rparr>)) = ''cde''
   \<and> fst (readbody (walker_at ''abcdef'' 2 0)) = ''cdef''
   \<and> fst (readbody (walker_at ''abcdef'' 6 0)) = ''''"
  using readbody_returns_available [of "(walker_at ''abcdef'' 2 0)\<lparr>bodysize := 10\<rparr>"]
    readbody_returns_available [of "(walker_at ''abcdef'' 2 0)\<lparr>bodysize := 3\<rparr>"]
    readbody_returns_available [of "walker_at ''abcdef'' 2 0"]
    readbody_returns_available [of "walker_at ''abcdef'' 6 0"]
  by (simp add: walker_at_def JP2Box_init_def Buffer_init_def seek_def tell_def)

subsection \<open>The length field\<close>




subsection \<open>The extended length field\<close>




subsection \<open>Short reads in the header\<close>




subsection \<open>The walk loop\<close>

text \<open>A header that announces a box ends 8 or 16 bytes after the position where it began,
  and leaves the stored body size alone.\<close>

lemma parse_header_position:
  assumes hdr: "parse_header self = Inr (self1, h)"
    and box: "h \<noteq> NoBox"
    and pos: "0 \<le> tell (infile self)"
  shows "tell (infile self1) = tell (infile self) + hdrsize self1
       \<and> buffer (infile self1) = buffer (infile self)
       \<and> bodysize self1 = bodysize self
       \<and> (hdrsize self1 = 8 \<or> hdrsize self1 = 16)
       \<and> ((\<exists>ident. h = UpToEOF ident) \<longrightarrow> hdrsize self1 = 8)"
proof -
  obtain lbox f1 where r1: "read (infile self) 4 = (lbox, f1)"
    by (cases "read (infile self) 4") 
  obtain tbox f2 where r2: "read f1 4 = (tbox, f2)"
    by (cases "read f1 4")
  obtain xbox f3 where r3: "read f2 8 = (xbox, f3)"
    by (cases "read f2 8")
  have o0: "0 \<le> offset (infile self)"
    using pos by (simp add: tell_def)
  note a1 = read_result [OF o0 _ r1]
  have o1: "0 \<le> offset f1" using a1 o0 by simp
  note a2 = read_result [OF o1 _ r2]
  have o2: "0 \<le> offset f2" using a2 o1 by simp
  note a3 = read_result [OF o2 _ r3]
  have rh: "read_header self = Inr (self1, h)"
    using hdr box by (auto simp: parse_header_def split: if_splits)
  show ?thesis
    using rh box a1 a2 a3
    by (auto simp: read_header_def r1 r2 r3 Let_def tell_def raise_invalid_Inl
          decode_ascii_def ordl_def ordq_def
        split: if_splits sum.splits)
qed

text \<open>
  C1. When a header with a finite length \<open>len\<close> has been decoded and the hook returns,
  wherever it has left the cursor of the source, the pass of the loop ends with the source
  at the position right after the header plus \<open>len\<close>, and the next pass, which decodes the
  next sibling header, starts from that state. The hook is taken not to assign
  \<open>self.target\<close>, the field in which the walker keeps the end of the body.
\<close>

theorem parse_repositions_to_body_end:
  assumes hdr: "parse_header self = Inr (self1, Sized len ident)"
    and hook: "hook (new_box (self1\<lparr>bodysize := len, target := tell (infile self1) + len\<rparr>)
                      (quoted ident)) ident (str_int len) = Inr self3"
    and keep: "target self3 = tell (infile self1) + len"
    and nxt: "next = end_box (self3\<lparr>infile := seek (infile self3) (tell (infile self1) + len),
                                      box_offset := box_offset self3 + len\<rparr>)"
  shows "parse_pass hook self = Inr (Continue next)
       \<and> parse hook self = parse hook next
       \<and> tell (infile next) = tell (infile self1) + len
       \<and> buffer (infile next) = buffer (infile self3)
       \<and> (0 \<le> tell (infile self) \<longrightarrow>
            tell (infile self1) = tell (infile self) + hdrsize self1)"
proof -
  have pass: "parse_pass hook self = Inr (Continue next)"
    by (simp add: parse_pass_def hdr hook keep nxt Let_def)
  have loop: "parse hook self = parse hook next"
    by (subst parse.simps) (simp add: pass)
  have cur: "tell (infile next) = tell (infile self1) + len"
    by (simp add: nxt end_box_def seek_def tell_def)
  have buf: "buffer (infile next) = buffer (infile self3)"
    by (simp add: nxt end_box_def seek_def)
  have hd: "0 \<le> tell (infile self) \<Longrightarrow> tell (infile self1) = tell (infile self) + hdrsize self1"
    using parse_header_position [OF hdr] by simp
  show ?thesis
    using pass loop cur buf hd by blast
qed

lemma box_then_box_header:
  "parse_header (walker_at box_then_box 0 0) =
     Inr ((walker_at box_then_box 8 0)\<lparr>box_offset := 8, hdrsize := 8, boxsize := 4\<rparr>,
          Sized 4 ''abcd'')"
  by (simp add: parse_header_def read_header_def eval_defs box_then_box_def)

theorem parse_repositions_to_body_end_witness:
  "parse_header (walker_at box_then_box 0 0) =
     Inr ((walker_at box_then_box 8 0)\<lparr>box_offset := 8, hdrsize := 8, boxsize := 4\<rparr>,
          Sized 4 ''abcd'')
   \<and> hook_read_to_end
        (new_box ((walker_at box_then_box 8 0)
                   \<lparr>box_offset := 8, hdrsize := 8, boxsize := 4, bodysize := 4, target := 12\<rparr>)
           (quoted ''abcd'')) ''abcd'' (str_int 4) =
       Inr ((walker_at box_then_box 20 0)
              \<lparr>indent := 1, box_offset := 8, hdrsize := 8, boxsize := 4, bodysize := 4,
                target := 12\<rparr>)
   \<and> parse_pass hook_read_to_end (walker_at box_then_box 0 0) =
       Inr (Continue ((walker_at box_then_box 12 0)
              \<lparr>box_offset := 12, hdrsize := 8, boxsize := 4, bodysize := 4, target := 12\<rparr>))
   \<and> parse hook_read_to_end (walker_at box_then_box 0 0) =
       parse hook_read_to_end ((walker_at box_then_box 12 0)
              \<lparr>box_offset := 12, hdrsize := 8, boxsize := 4, bodysize := 4, target := 12\<rparr>)"
  using parse_repositions_to_body_end
    [of "walker_at box_then_box 0 0"
        "(walker_at box_then_box 8 0)\<lparr>box_offset := 8, hdrsize := 8, boxsize := 4\<rparr>"
        4 "''abcd''" hook_read_to_end
        "(walker_at box_then_box 20 0)
              \<lparr>indent := 1, box_offset := 8, hdrsize := 8, boxsize := 4, bodysize := 4,
                target := 12\<rparr>"
        "(walker_at box_then_box 12 0)
              \<lparr>box_offset := 12, hdrsize := 8, boxsize := 4, bodysize := 4, target := 12\<rparr>"]
    box_then_box_header
  by (simp add: hook_read_to_end_def new_box_def end_box_def eval_defs box_then_box_def)


text \<open>
  C2 as stated fails: after the hook of a box with \<open>L = 0\<close> the loop does \<open>continue\<close>. With
  a hook that reads nothing, the next pass decodes the 8 bytes after the sentinel header as
  the header of a sibling \<open>efgh\<close>.
\<close>

theorem parse_sentinel_sibling_counterexample:
  "parse_header (walker_at sentinel_then_box 0 0) =
     Inr ((walker_at sentinel_then_box 8 0)\<lparr>box_offset := 8, hdrsize := 8\<rparr>, UpToEOF ''abcd'')
   \<and> parse_pass hook_skip (walker_at sentinel_then_box 0 0) =
     Inr (Continue ((walker_at sentinel_then_box 8 0)\<lparr>box_offset := 8, hdrsize := 8\<rparr>))
   \<and> parse_header ((walker_at sentinel_then_box 8 0)\<lparr>box_offset := 8, hdrsize := 8\<rparr>) =
     Inr ((walker_at sentinel_then_box 16 0)\<lparr>box_offset := 16, hdrsize := 8, boxsize := 0\<rparr>,
          Sized 0 ''efgh'')"
  by (simp add: parse_pass_def parse_header_def read_header_def hook_skip_def new_box_def
        end_box_def eval_defs sentinel_then_box_def)

text \<open>
  C2, amended. When a box with \<open>L = 0\<close> is decoded, the walker calls the hook for it with
  the description "all up to EOF" and goes on with the loop from the state the hook
  returns: the walk is the walk from there, and it returns right after the sentinel box
  when the next decode gives the empty result.
\<close>

theorem parse_after_sentinel:
  assumes hdr: "parse_header self = Inr (self1, UpToEOF ident)"
    and hook: "hook (new_box self1 (quoted ident)) ident ''all up to EOF'' = Inr self2"
  shows "parse_pass hook self = Inr (Continue (end_box self2))
       \<and> parse hook self = parse hook (end_box self2)
       \<and> (parse_header (end_box self2) = Inr (self3, NoBox) \<longrightarrow>
            parse hook self = Some (Inr self3))"
proof -
  have pass: "parse_pass hook self = Inr (Continue (end_box self2))"
    by (simp add: parse_pass_def hdr hook)
  have loop: "parse hook self = parse hook (end_box self2)"
    by (subst parse.simps) (simp add: pass)
  have ret: "parse hook (end_box self2) = Some (Inr self3)"
    if "parse_header (end_box self2) = Inr (self3, NoBox)"
    by (subst parse.simps) (simp add: parse_pass_def that)
  show ?thesis
    using pass loop ret by simp
qed

theorem parse_after_sentinel_witness:
  "parse_header (walker_at sentinel_only 0 0) =
     Inr ((walker_at sentinel_only 8 0)\<lparr>box_offset := 8, hdrsize := 8\<rparr>, UpToEOF ''abcd'')
   \<and> hook_readbody
       (new_box ((walker_at sentinel_only 8 0)\<lparr>box_offset := 8, hdrsize := 8\<rparr>) (quoted ''abcd''))
       ''abcd'' ''all up to EOF'' =
     Inr ((walker_at sentinel_only 12 0)\<lparr>indent := 1, box_offset := 8, hdrsize := 8\<rparr>)
   \<and> parse_header ((walker_at sentinel_only 12 0)\<lparr>box_offset := 8, hdrsize := 8\<rparr>) =
     Inr ((walker_at sentinel_only 12 0)\<lparr>box_offset := 8, hdrsize := 8\<rparr>, NoBox)
   \<and> parse hook_readbody (walker_at sentinel_only 0 0) =
     Some (Inr ((walker_at sentinel_only 12 0)\<lparr>box_offset := 8, hdrsize := 8\<rparr>))"
proof -
  have h: "parse_header (walker_at sentinel_only 0 0) =
     Inr ((walker_at sentinel_only 8 0)\<lparr>box_offset := 8, hdrsize := 8\<rparr>, UpToEOF ''abcd'')"
    by (simp add: parse_header_def read_header_def eval_defs sentinel_only_def)
  have k: "hook_readbody
       (new_box ((walker_at sentinel_only 8 0)\<lparr>box_offset := 8, hdrsize := 8\<rparr>) (quoted ''abcd''))
       ''abcd'' ''all up to EOF'' =
     Inr ((walker_at sentinel_only 12 0)\<lparr>indent := 1, box_offset := 8, hdrsize := 8\<rparr>)"
    by (simp add: hook_readbody_def readbody_def new_box_def eval_defs sentinel_only_def)
  have b: "end_box ((walker_at sentinel_only 12 0)\<lparr>indent := 1, box_offset := 8, hdrsize := 8\<rparr>)
      = (walker_at sentinel_only 12 0)\<lparr>box_offset := 8, hdrsize := 8\<rparr>"
    by (simp add: end_box_def walker_at_def JP2Box_init_def)
  have e: "parse_header ((walker_at sentinel_only 12 0)\<lparr>box_offset := 8, hdrsize := 8\<rparr>) =
     Inr ((walker_at sentinel_only 12 0)\<lparr>box_offset := 8, hdrsize := 8\<rparr>, NoBox)"
    by (simp add: parse_header_def read_header_def eval_defs sentinel_only_def)
  show ?thesis
    using parse_after_sentinel [where hook = hook_readbody, OF h k, unfolded b] h k e by blast
qed

text \<open>
  C8 as stated fails twice. In the scope from 8 to 20 of a longer source, \<open>readbody\<close> for
  the box with \<open>L = 0\<close> returns the 4 bytes left in the scope and the 8 bytes after its
  end. After a box with a body of 2 bytes, \<open>self.bodysize\<close> is still 2 when the box with
  \<open>L = 0\<close> is handled, and \<open>readbody\<close> returns 2 of the 6 bytes that remain.
\<close>

theorem readbody_sentinel_counterexample:
  "box_end (walker_at nested_source 8 20) = 20
   \<and> parse_header (walker_at nested_source 8 20) =
       Inr ((walker_at nested_source 16 20)\<lparr>box_offset := 8, hdrsize := 8\<rparr>, UpToEOF ''chld'')
   \<and> fst (readbody (new_box ((walker_at nested_source 16 20)\<lparr>box_offset := 8, hdrsize := 8\<rparr>)
                         (quoted ''chld''))) =
       ''wxyz'' @ [CHR 0x00, CHR 0x00, CHR 0x00, CHR 0x08] @ ''next''
   \<and> parse_pass hook_skip (walker_at box_then_sentinel 0 0) =
       Inr (Continue ((walker_at box_then_sentinel 10 0)
              \<lparr>box_offset := 10, hdrsize := 8, boxsize := 2, bodysize := 2, target := 10\<rparr>))
   \<and> parse_header ((walker_at box_then_sentinel 10 0)
              \<lparr>box_offset := 10, hdrsize := 8, boxsize := 2, bodysize := 2, target := 10\<rparr>) =
       Inr ((walker_at box_then_sentinel 18 0)
              \<lparr>box_offset := 18, hdrsize := 8, boxsize := 2, bodysize := 2, target := 10\<rparr>,
            UpToEOF ''rest'')
   \<and> fst (readbody (new_box ((walker_at box_then_sentinel 18 0)
              \<lparr>box_offset := 18, hdrsize := 8, boxsize := 2, bodysize := 2, target := 10\<rparr>)
              (quoted ''rest''))) = ''pq''"
  by (simp add: parse_pass_def parse_header_def read_header_def readbody_def hook_skip_def
        new_box_def end_box_def eval_defs nested_source_def box_then_sentinel_def)

text \<open>
  C8, amended. When a box with \<open>L = 0\<close> is decoded by a walker whose stored body size is
  not positive (as it is for the first box of a walk) from a position \<open>p \<ge> 0\<close>, the hook
  is called on a walker for which \<open>readbody\<close> returns all the bytes of the source from
  \<open>p + 8\<close>, right after the 8-byte header, to the end of the source.
\<close>

theorem readbody_sentinel_rest_of_source:
  assumes hdr: "parse_header self = Inr (self1, UpToEOF ident)"
    and size: "bodysize self \<le> 0"
    and pos: "0 \<le> tell (infile self)"
  shows "parse_pass hook self =
           (case hook (new_box self1 (quoted ident)) ident ''all up to EOF'' of
              Inl e \<Rightarrow> Inl e
            | Inr self2 \<Rightarrow> Inr (Continue (end_box self2)))
       \<and> fst (readbody (new_box self1 (quoted ident))) =
           drop (nat (tell (infile self)) + 8) (buffer (infile self))"
proof -
  have pass: "parse_pass hook self =
           (case hook (new_box self1 (quoted ident)) ident ''all up to EOF'' of
              Inl e \<Rightarrow> Inl e
            | Inr self2 \<Rightarrow> Inr (Continue (end_box self2)))"
    by (simp add: parse_pass_def hdr)
  from parse_header_position [OF hdr _ pos]
  have p: "tell (infile self1) = tell (infile self) + 8"
    and b: "buffer (infile self1) = buffer (infile self)"
    and s: "bodysize self1 = bodysize self"
    by simp_all
  have o: "0 \<le> offset (infile self1)"
    using p pos by (simp add: tell_def)
  have n: "nat (offset (infile self1)) = nat (tell (infile self)) + 8"
    using p pos by (simp add: tell_def nat_add_distrib)
  have "fst (readbody (new_box self1 (quoted ident))) = fst (read (infile self1) (- 1))"
    using size s by (simp add: readbody_def new_box_def split_beta)
  also have "\<dots> = drop (nat (offset (infile self1))) (buffer (infile self1))"
    by (rule read_rest [OF o])
  finally have body: "fst (readbody (new_box self1 (quoted ident))) =
           drop (nat (tell (infile self)) + 8) (buffer (infile self))"
    by (simp add: n b)
  show ?thesis
    using pass body by simp
qed

theorem readbody_sentinel_rest_of_source_witness:
  "parse_header (walker_at sentinel_only 0 0) =
     Inr ((walker_at sentinel_only 8 0)\<lparr>box_offset := 8, hdrsize := 8\<rparr>, UpToEOF ''abcd'')
   \<and> bodysize (walker_at sentinel_only 0 0) \<le> 0
   \<and> 0 \<le> tell (infile (walker_at sentinel_only 0 0))
   \<and> fst (readbody (new_box ((walker_at sentinel_only 8 0)\<lparr>box_offset := 8, hdrsize := 8\<rparr>)
                         (quoted ''abcd''))) = ''body''"
proof -
  have h: "parse_header (walker_at sentinel_only 0 0) =
     Inr ((walker_at sentinel_only 8 0)\<lparr>box_offset := 8, hdrsize := 8\<rparr>, UpToEOF ''abcd'')"
    by (simp add: parse_header_def read_header_def eval_defs sentinel_only_def)
  show ?thesis
    using readbody_sentinel_rest_of_source
      [of "walker_at sentinel_only 0 0"
          "(walker_at sentinel_only 8 0)\<lparr>box_offset := 8, hdrsize := 8\<rparr>"
          "''abcd''" hook_skip]
      h
    by (simp add: eval_defs sentinel_only_def)
qed

subsection \<open>The two header decoders\<close>

lemma parse_string_header_struct_error:
  "length buf \<noteq> 4 \<Longrightarrow> parse_string_header buf = Inl StructError"
  by (simp add: parse_string_header_def ordl_def)

text \<open>
  C10. On the 8 bytes of a box header with \<open>L = 8\<close> and the tag \<open>jp2h\<close> the two decoders
  differ: \<open>parse_string_header\<close> hands the whole buffer to \<open>ordl\<close>, whose \<open>struct.unpack\<close>
  wants exactly 4 bytes, and raises the error of \<open>struct\<close>; \<open>parse_header\<close>, which reads 4
  bytes for \<open>ordl\<close>, succeeds with body length 0 and the tag \<open>jp2h\<close>.
\<close>

theorem parse_string_header_full_header:
  "length (take 8 two_boxes) = 8
   \<and> be_value (take 4 two_boxes) = 8
   \<and> parse_string_header (take 8 two_boxes) = Inl StructError
   \<and> parse_header (walker_at (take 8 two_boxes) 0 0) =
       Inr ((walker_at (take 8 two_boxes) 8 0)\<lparr>box_offset := 8, hdrsize := 8, boxsize := 0\<rparr>,
            Sized 0 ''jp2h'')"
  by (simp add: parse_string_header_def parse_header_def read_header_def eval_defs
        two_boxes_def)

end
